theory Spec2Isabelle
  imports Main
begin

section \<open>Values, errors and the HTTP surroundings\<close>

text \<open>
  The client never computes on the bodies it receives: it decodes them with
  \<^verbatim>\<open>Response.json()\<close>, subscripts them once during the handshake and passes them
  on. A decoded body is a value of \<open>json\<close>; a decoded dict is the list of its items.
  Numbers that are not integers are not represented.
\<close>

datatype json =
    JNull
  | JBool bool
  | JNum int
  | JStr string
  | JList "json list"
  | JDict "(string \<times> json) list"

text \<open>
  The exceptions that can leave the modelled methods. \<open>NotConnected\<close> is the builtin
  \<^verbatim>\<open>ConnectionError\<close> that \<^verbatim>\<open>_check_if_connected\<close> raises; \<open>TransportError\<close> stands for
  whatever \<^verbatim>\<open>requests\<close> raises from \<^verbatim>\<open>Session.get\<close> (its exceptions derive from
  \<^verbatim>\<open>RequestException\<close>, a class of its own); \<open>DecodeError\<close> is \<^verbatim>\<open>Response.json()\<close> on a
  body that is not JSON; the last three are Python's own errors of a subscript or of
  reading an attribute that was never assigned.
\<close>

datatype error =
    NotConnected
  | TransportError
  | DecodeError
  | KeyError
  | TypeError
  | AttributeError

text \<open>\<^verbatim>\<open>obj[key]\<close> with a string key, on a decoded body.\<close>

fun getitem :: "json \<Rightarrow> string \<Rightarrow> error + json" where
  "getitem (JDict kvs) k = (case map_of kvs k of None \<Rightarrow> Inl KeyError | Some v \<Rightarrow> Inr v)"
| "getitem _ k = Inl TypeError"

text \<open>Reading an instance attribute: a slot that was never assigned raises.\<close>

definition attr :: "'a option \<Rightarrow> error + 'a" where
  "attr x = (case x of None \<Rightarrow> Inl AttributeError | Some v \<Rightarrow> Inr v)"

text \<open>\<^verbatim>\<open>str(n)\<close> for a Python int.\<close>

fun str_nat :: "nat \<Rightarrow> string" where
  "str_nat n =
     (if n < 10 then [''0123456789'' ! n]
      else str_nat (n div 10) @ [''0123456789'' ! (n mod 10)])"

declare str_nat.simps [simp del]

definition str :: "int \<Rightarrow> string" where
  "str i = (if i < 0 then ''-'' @ str_nat (nat (- i)) else str_nat (nat i))"

text \<open>\<^verbatim>\<open>d[k] = v\<close> on a dict.\<close>

definition setitem :: "('k \<rightharpoonup> 'v) \<Rightarrow> 'k \<Rightarrow> 'v \<Rightarrow> ('k \<rightharpoonup> 'v)" where
  "setitem d k v = d(k \<mapsto> v)"

text \<open>
  One GET as the client hands it to \<^verbatim>\<open>requests\<close>: the url, the \<^verbatim>\<open>params\<close> dict and the
  \<^verbatim>\<open>headers\<close> dict (empty when the call passes none).
\<close>

record request =
  req_url :: string
  req_params :: "string \<rightharpoonup> json"
  req_headers :: "string \<rightharpoonup> string"

text \<open>
  A response is what \<^verbatim>\<open>Response.json()\<close> makes of its body: \<open>None\<close> when the body is not
  JSON. A GET either raises or answers.
\<close>

datatype response = Response "json option"

datatype reply = Fails | Answers response

fun json_of :: "response \<Rightarrow> error + json" where
  "json_of (Response None) = Inl DecodeError"
| "json_of (Response (Some j)) = Inr j"

section \<open>The event dispatcher\<close>

text \<open>
  A callback is a function of the caller's; the model knows it by a name and records
  each call with the argument it received. Callbacks are taken to return.
\<close>

type_synonym callback = string

datatype action = Sent request | Called callback json

text \<open>
  Modelled from the spec: the module \<^verbatim>\<open>event.py\<close> (class \<^verbatim>\<open>Event\<close>) is imported by both
  source files and is not among them. The spec gives it as "a mutable collection of
  callback functions; supports registration (via an addition operator) and invocation
  (calling every registered callback with one argument)", an "ordered collection of
  callback references".
\<close>

type_synonym event = "callback list"

definition Event :: event where
  "Event = []"

definition event_iadd :: "event \<Rightarrow> callback \<Rightarrow> event" where
  "event_iadd ev f = ev @ [f]"

fun event_call :: "event \<Rightarrow> json \<Rightarrow> action list \<Rightarrow> action list" where
  "event_call [] j hist = hist"
| "event_call (f # fs) j hist = event_call fs j (hist @ [Called f j])"

section \<open>The status poller (update\_status.py)\<close>

record poller =
  params :: "string \<rightharpoonup> json"
  headers :: "string \<rightharpoonup> string"
  url :: string
  handlers :: event
  wait :: int
  should_run :: bool

text \<open>\<^verbatim>\<open>UpdateStatus.__init__\<close>.\<close>

definition UpdateStatus ::
  "event \<Rightarrow> (string \<rightharpoonup> json) \<Rightarrow> (string \<rightharpoonup> string) \<Rightarrow> string \<Rightarrow> int \<Rightarrow> poller" where
  "UpdateStatus hs ps hdrs u wt =
     \<lparr>params = ps, headers = hdrs, url = u, handlers = hs, wait = wt, should_run = True\<rparr>"

text \<open>The setter of the \<^verbatim>\<open>should_run\<close> property.\<close>

definition set_should_run :: "poller \<Rightarrow> bool \<Rightarrow> poller" where
  "set_should_run p val = p\<lparr>should_run := val\<rparr>"

text \<open>
  What the surroundings do during one pass of the loop in \<^verbatim>\<open>run\<close>: how the status
  server answers the GET, and the calls of the \<^verbatim>\<open>should_run\<close> setter that land while
  the GET is in flight and while the handlers run. The setter calls are those made on
  the object that \<^verbatim>\<open>run\<close> executes on; how an assignment made in the process that
  started the poller would reach it is not part of the model.
\<close>

record turn =
  answer :: reply
  set_in_flight :: "bool list"
  set_in_dispatch :: "bool list"

datatype outcome =
    Returned poller "action list"
  | Raised error poller "action list"

text \<open>
  \<^verbatim>\<open>UpdateStatus.run\<close>. The loop has no bound of its own, so it runs against a script of
  turns: \<open>None\<close> says that the script ended while the loop was still going.
  \<^verbatim>\<open>
    while self.should_run:
        self.params["returnon"] = "login,logout,play,pause,error,ap"
        self.params["returnafter"] = str(self.wait)
        r = self.session.get(url=self.url, params=self.params, headers=self.headers)
        j = r.json()
        self.handlers(j)
  \<close>
\<close>

fun run :: "turn list \<Rightarrow> poller \<Rightarrow> action list \<Rightarrow> outcome option" where
  "run script p hist =
     (if \<not> should_run p then Some (Returned p hist)
      else case script of
        [] \<Rightarrow> None
      | t # rest \<Rightarrow>
         (let p1 = p\<lparr>params := setitem (params p) ''returnon'' (JStr ''login,logout,play,pause,error,ap'')\<rparr>;
              p2 = p1\<lparr>params := setitem (params p1) ''returnafter'' (JStr (str (wait p1)))\<rparr>;
              hist1 = hist @ [Sent \<lparr>req_url = url p2, req_params = params p2, req_headers = headers p2\<rparr>];
              p3 = foldl set_should_run p2 (set_in_flight t)
          in (case answer t of
                Fails \<Rightarrow> Some (Raised TransportError p3 hist1)
              | Answers r \<Rightarrow>
                  (case json_of r of
                     Inl err \<Rightarrow> Some (Raised err p3 hist1)
                   | Inr j \<Rightarrow>
                       run rest (foldl set_should_run p3 (set_in_dispatch t))
                         (event_call (handlers p3) j hist1)))))"

declare run.simps [simp del]

section \<open>The control client (core.py, class SpotifyLocal)\<close>

text \<open>
  The surroundings of the client: \<open>choices e n\<close> is what the \<open>n\<close>-th evaluation of
  \<^verbatim>\<open>"".join(choices(ascii_lowercase, k=10))\<close> yields, and \<open>serve e acts req\<close> is how the
  network answers the GET \<open>req\<close> after the actions \<open>acts\<close>. The world counts the draws
  and records every GET that was issued.
\<close>

record env =
  choices :: "nat \<Rightarrow> string"
  serve :: "action list \<Rightarrow> request \<Rightarrow> reply"

record world =
  acts :: "action list"
  drawn :: nat

definition DEFAULT_ORIGIN :: "string \<rightharpoonup> string" where
  "DEFAULT_ORIGIN = [''Origin'' \<mapsto> ''https://open.spotify.com'']"

definition DEFAULT_PORT :: int where
  "DEFAULT_PORT = 4381"

text \<open>
  \<^verbatim>\<open>
    sub = "{0}.spotilocal.com".format("".join(choices(ascii_lowercase, k=10)))
    return "http://{0}:{1}{2}".format(sub, DEFAULT_PORT, url)
  \<close>
\<close>

definition get_url :: "env \<Rightarrow> string \<Rightarrow> world \<Rightarrow> string \<times> world" where
  "get_url e u w =
     (let sub = choices e (drawn w) @ ''.spotilocal.com''
      in (''http://'' @ sub @ '':'' @ str DEFAULT_PORT @ u, w\<lparr>drawn := Suc (drawn w)\<rparr>))"

text \<open>
  The attributes of a \<^verbatim>\<open>SpotifyLocal\<close> object that its methods read and write. The class
  declares
  \<^verbatim>\<open>
    __slots__ = ["session", "_origin", "_connected", "_oauth_token", "_csrf_token",
                 "_process", "on_status_change"]
  \<close>
  while \<^verbatim>\<open>__init__\<close> and the methods use the attribute \<^verbatim>\<open>_session\<close>. An object of the class
  itself has a place for the listed names only and no \<^verbatim>\<open>__dict__\<close>: \<^verbatim>\<open>_session\<close> can never
  be assigned on it, and reading it raises \<^verbatim>\<open>AttributeError\<close>. An object of a subclass
  that declares no \<^verbatim>\<open>__slots__\<close> has a \<^verbatim>\<open>__dict__\<close>, which takes \<^verbatim>\<open>_session\<close>. The field
  \<open>http_session\<close> is that attribute: \<open>None\<close> where it is not assigned, \<open>Some ()\<close> where it
  holds a \<^verbatim>\<open>requests\<close> session (whose own state is not modelled). The two token
  attributes are annotated in \<^verbatim>\<open>__init__\<close> and assigned by \<^verbatim>\<open>connect\<close> only, so they start
  out unassigned. The record is of objects whose \<^verbatim>\<open>_origin\<close>, \<^verbatim>\<open>_connected\<close>, \<^verbatim>\<open>_process\<close> and
  \<^verbatim>\<open>on_status_change\<close> have been assigned.
\<close>

record session =
  http_session :: "unit option"
  origin :: "string \<rightharpoonup> string"
  connected :: bool
  oauth_token :: "json option"
  csrf_token :: "json option"
  process :: "poller option"
  on_status_change :: event

text \<open>
  \<^verbatim>\<open>__init__\<close>:
  \<^verbatim>\<open>
    self._session: Session = session()
    self._origin: Dict = DEFAULT_ORIGIN
    self._connected: bool = False
    self._oauth_token: str
    self._csrf_token: str
    self._process: Optional[UpdateStatus] = None
    self.on_status_change: Event = Event()
  \<close>
  On an object of the class itself the first statement raises \<^verbatim>\<open>AttributeError\<close> and
  nothing is assigned: \<^verbatim>\<open>SpotifyLocal()\<close> yields no object. On an object of a subclass with
  a \<^verbatim>\<open>__dict__\<close> every assignment goes through and leaves \<open>initial_session\<close>.
\<close>

datatype object_kind = OfClass | OfSubclass

definition initial_session :: session where
  "initial_session =
     \<lparr>http_session = Some (), origin = DEFAULT_ORIGIN, connected = False, oauth_token = None,
      csrf_token = None, process = None, on_status_change = Event\<rparr>"

definition init :: "object_kind \<Rightarrow> error + session" where
  "init k = (case k of OfClass \<Rightarrow> Inl AttributeError | OfSubclass \<Rightarrow> Inr initial_session)"

text \<open>\<^verbatim>\<open>Session.get\<close>: the GET is recorded, then it raises or answers.\<close>

definition session_get :: "env \<Rightarrow> request \<Rightarrow> world \<Rightarrow> (error + response) \<times> world" where
  "session_get e req w =
     (case serve e (acts w) req of
        Fails \<Rightarrow> Inl TransportError
      | Answers r \<Rightarrow> Inr r,
      w\<lparr>acts := acts w @ [Sent req]\<rparr>)"

text \<open>
  Every method takes the session and the world and gives back its result, or the
  exception it raised, with the session and the world as it left them.

  \<^verbatim>\<open>_request\<close>:
  \<^verbatim>\<open>r = self._session.get(url=url, params=params, headers=self._origin)\<close>
  The read of \<^verbatim>\<open>self._session\<close> comes first: where the attribute is not assigned it raises
  before anything is sent.
\<close>

definition request ::
  "env \<Rightarrow> string \<Rightarrow> (string \<rightharpoonup> json) \<Rightarrow> session \<Rightarrow> world \<Rightarrow> (error + response) \<times> session \<times> world" where
  "request e u ps s w =
     (case attr (http_session s) of
        Inl err \<Rightarrow> (Inl err, s, w)
      | Inr _ \<Rightarrow>
          (case session_get e \<lparr>req_url = u, req_params = ps, req_headers = origin s\<rparr> w of
             (r, w1) \<Rightarrow> (r, s, w1)))"

text \<open>
  \<^verbatim>\<open>_get_oauth_token\<close>:
  \<^verbatim>\<open>
    url = "{0}/token".format(self._origin["Origin"])
    r = self._session.get(url=url)
    return r.json()["t"]
  \<close>
\<close>

definition get_oauth_token ::
  "env \<Rightarrow> session \<Rightarrow> world \<Rightarrow> (error + json) \<times> session \<times> world" where
  "get_oauth_token e s w =
     (case origin s ''Origin'' of
        None \<Rightarrow> (Inl KeyError, s, w)
      | Some orig \<Rightarrow>
          (case attr (http_session s) of
             Inl err \<Rightarrow> (Inl err, s, w)
           | Inr _ \<Rightarrow>
               (case session_get e
                       \<lparr>req_url = orig @ ''/token'', req_params = Map.empty,
                        req_headers = Map.empty\<rparr> w of
                  (Inl err, w1) \<Rightarrow> (Inl err, s, w1)
                | (Inr r, w1) \<Rightarrow>
                    (case json_of r of
                       Inl err \<Rightarrow> (Inl err, s, w1)
                     | Inr j \<Rightarrow> (getitem j ''t'', s, w1)))))"

text \<open>
  \<^verbatim>\<open>_get_csrf_token\<close>:
  \<^verbatim>\<open>
    url = get_url("/simplecsrf/token.json")
    r = self._request(url=url)
    return r.json()["token"]
  \<close>
\<close>

definition get_csrf_token ::
  "env \<Rightarrow> session \<Rightarrow> world \<Rightarrow> (error + json) \<times> session \<times> world" where
  "get_csrf_token e s w =
     (case get_url e ''/simplecsrf/token.json'' w of
        (u, w1) \<Rightarrow>
          (case request e u Map.empty s w1 of
             (Inl err, s2, w2) \<Rightarrow> (Inl err, s2, w2)
           | (Inr r, s2, w2) \<Rightarrow>
               (case json_of r of
                  Inl err \<Rightarrow> (Inl err, s2, w2)
                | Inr j \<Rightarrow> (getitem j ''token'', s2, w2))))"

text \<open>
  \<^verbatim>\<open>_check_if_connected\<close>: the assertion \<^verbatim>\<open>self._connected == True\<close>, its failure turned
  into \<^verbatim>\<open>ConnectionError\<close>. (The check is an \<^verbatim>\<open>assert\<close> statement: the model is of the
  interpreter running with assertions enabled, its default.)
\<close>

definition check_if_connected :: "session \<Rightarrow> error + unit" where
  "check_if_connected s = (if connected s = True then Inr () else Inl NotConnected)"

text \<open>
  \<^verbatim>\<open>connect\<close>:
  \<^verbatim>\<open>
    self._oauth_token = self._get_oauth_token()
    self._csrf_token = self._get_csrf_token()
    self._connected = True
  \<close>
\<close>

definition connect :: "env \<Rightarrow> session \<Rightarrow> world \<Rightarrow> (error + unit) \<times> session \<times> world" where
  "connect e s w =
     (case get_oauth_token e s w of
        (Inl err, s1, w1) \<Rightarrow> (Inl err, s1, w1)
      | (Inr t, s1, w1) \<Rightarrow>
          (case get_csrf_token e (s1\<lparr>oauth_token := Some t\<rparr>) w1 of
             (Inl err, s2, w2) \<Rightarrow> (Inl err, s2, w2)
           | (Inr c, s2, w2) \<Rightarrow>
               (Inr (), s2\<lparr>csrf_token := Some c, connected := True\<rparr>, w2)))"


text \<open>
  The dict \<^verbatim>\<open>{"oauth": self._oauth_token, "csrf": self._csrf_token}\<close> that every control call
  starts its parameters with; reading a token that was never assigned raises.
\<close>

definition token_params :: "session \<Rightarrow> error + (string \<rightharpoonup> json)" where
  "token_params s =
     (case attr (oauth_token s) of
        Inl err \<Rightarrow> Inl err
      | Inr t \<Rightarrow>
          (case attr (csrf_token s) of
             Inl err \<Rightarrow> Inl err
           | Inr c \<Rightarrow> Inr [''oauth'' \<mapsto> t, ''csrf'' \<mapsto> c]))"

text \<open>
  \<^verbatim>\<open>get_current_status\<close>:
  \<^verbatim>\<open>
    self._check_if_connected()
    url = get_url("/remote/status.json")
    params = {"oauth": self._oauth_token, "csrf": self._csrf_token}
    r = self._request(url=url, params=params)
    return r.json()
  \<close>
\<close>

definition get_current_status ::
  "env \<Rightarrow> session \<Rightarrow> world \<Rightarrow> (error + json) \<times> session \<times> world" where
  "get_current_status e s w =
     (case check_if_connected s of
        Inl err \<Rightarrow> (Inl err, s, w)
      | Inr _ \<Rightarrow>
          (case get_url e ''/remote/status.json'' w of
             (u, w1) \<Rightarrow>
               (case token_params s of
                  Inl err \<Rightarrow> (Inl err, s, w1)
                | Inr ps \<Rightarrow>
                    (case request e u ps s w1 of
                       (Inl err, s2, w2) \<Rightarrow> (Inl err, s2, w2)
                     | (Inr r, s2, w2) \<Rightarrow> (json_of r, s2, w2)))))"

text \<open>
  \<^verbatim>\<open>pause\<close>:
  \<^verbatim>\<open>
    self._check_if_connected()
    url = get_url("/remote/pause.json")
    params = {"oauth": self._oauth_token, "csrf": self._csrf_token,
              "pause": "true" if pause else "false"}
    self._request(url=url, params=params)
  \<close>
\<close>

definition pause :: "env \<Rightarrow> bool \<Rightarrow> session \<Rightarrow> world \<Rightarrow> (error + unit) \<times> session \<times> world" where
  "pause e flag s w =
     (case check_if_connected s of
        Inl err \<Rightarrow> (Inl err, s, w)
      | Inr _ \<Rightarrow>
          (case get_url e ''/remote/pause.json'' w of
             (u, w1) \<Rightarrow>
               (case token_params s of
                  Inl err \<Rightarrow> (Inl err, s, w1)
                | Inr ps \<Rightarrow>
                    (case request e u
                            (setitem ps ''pause'' (JStr (if flag then ''true'' else ''false''))) s w1 of
                       (Inl err, s2, w2) \<Rightarrow> (Inl err, s2, w2)
                     | (Inr r, s2, w2) \<Rightarrow> (Inr (), s2, w2)))))"

text \<open>\<^verbatim>\<open>unpause\<close>: \<^verbatim>\<open>self.pause(pause=False)\<close>.\<close>

definition unpause :: "env \<Rightarrow> session \<Rightarrow> world \<Rightarrow> (error + unit) \<times> session \<times> world" where
  "unpause e s w = pause e False s w"

text \<open>
  \<^verbatim>\<open>playURI\<close>:
  \<^verbatim>\<open>
    self._check_if_connected()
    url = get_url("/remote/play.json")
    params = {"oauth": self._oauth_token, "csrf": self._csrf_token,
              "uri": uri, "context": uri}
    r = self._request(url=url, params=params)
    return r.json()
  \<close>
\<close>

definition playURI :: "env \<Rightarrow> string \<Rightarrow> session \<Rightarrow> world \<Rightarrow> (error + json) \<times> session \<times> world" where
  "playURI e uri s w =
     (case check_if_connected s of
        Inl err \<Rightarrow> (Inl err, s, w)
      | Inr _ \<Rightarrow>
          (case get_url e ''/remote/play.json'' w of
             (u, w1) \<Rightarrow>
               (case token_params s of
                  Inl err \<Rightarrow> (Inl err, s, w1)
                | Inr ps \<Rightarrow>
                    (case request e u
                            (setitem (setitem ps ''uri'' (JStr uri)) ''context'' (JStr uri)) s w1 of
                       (Inl err, s2, w2) \<Rightarrow> (Inl err, s2, w2)
                     | (Inr r, s2, w2) \<Rightarrow> (json_of r, s2, w2)))))"

text \<open>
  \<^verbatim>\<open>listen_for_events\<close>:
  \<^verbatim>\<open>
    self._check_if_connected()
    url = get_url("/remote/status.json")
    params = {"oauth": self._oauth_token, "csrf": self._csrf_token}
    self._process = UpdateStatus(handlers=self.on_status_change, params=params,
                                 headers=self._origin, url=url, wait=wait)
    self._process.start()
  \<close>
  \<^verbatim>\<open>start\<close> hands the poller to a process of its own, where \<open>run\<close> takes over; the
  caller's side of it issues no request.
\<close>

definition listen_for_events ::
  "env \<Rightarrow> int \<Rightarrow> session \<Rightarrow> world \<Rightarrow> (error + unit) \<times> session \<times> world" where
  "listen_for_events e wt s w =
     (case check_if_connected s of
        Inl err \<Rightarrow> (Inl err, s, w)
      | Inr _ \<Rightarrow>
          (case get_url e ''/remote/status.json'' w of
             (u, w1) \<Rightarrow>
               (case token_params s of
                  Inl err \<Rightarrow> (Inl err, s, w1)
                | Inr ps \<Rightarrow>
                    (Inr (),
                     s\<lparr>process := Some (UpdateStatus (on_status_change s) ps (origin s) u wt)\<rparr>,
                     w1))))"

section \<open>The asynchronous sibling (core.py, class SpotifyLocalAsync)\<close>

text \<open>
  \<^verbatim>\<open>SpotifyLocalAsync\<close> holds the same attributes and performs the same GETs, awaiting
  each. It declares no \<^verbatim>\<open>__slots__\<close>, so its \<^verbatim>\<open>__init__\<close> assigns \<^verbatim>\<open>_session\<close> like any other
  attribute; it sets both tokens to the empty string and has neither a poller nor a
  dispatcher (the two fields stay empty). Its \<^verbatim>\<open>_request\<close> decodes the body itself, and
  its \<^verbatim>\<open>_get_oauth_token\<close> goes through \<^verbatim>\<open>_request\<close>:
  \<^verbatim>\<open>
    async def _request(self, url, params={}):
        headers = self._origin
        async with self._session.get(url, headers=headers, params=params) as r:
            return await r.json()

    async def _get_oauth_token(self):
        url = "{0}/token".format(self._origin["Origin"])
        r = await self._request(url=url)
        return r["t"]
  \<close>
\<close>

definition async_initial_session :: session where
  "async_initial_session =
     \<lparr>http_session = Some (), origin = DEFAULT_ORIGIN, connected = False,
      oauth_token = Some (JStr ''''), csrf_token = Some (JStr ''''), process = None,
      on_status_change = Event\<rparr>"

definition async_request ::
  "env \<Rightarrow> string \<Rightarrow> (string \<rightharpoonup> json) \<Rightarrow> session \<Rightarrow> world \<Rightarrow> (error + json) \<times> session \<times> world" where
  "async_request e u ps s w =
     (case attr (http_session s) of
        Inl err \<Rightarrow> (Inl err, s, w)
      | Inr _ \<Rightarrow>
          (case session_get e \<lparr>req_url = u, req_params = ps, req_headers = origin s\<rparr> w of
             (Inl err, w1) \<Rightarrow> (Inl err, s, w1)
           | (Inr r, w1) \<Rightarrow> (json_of r, s, w1)))"

definition async_get_oauth_token ::
  "env \<Rightarrow> session \<Rightarrow> world \<Rightarrow> (error + json) \<times> session \<times> world" where
  "async_get_oauth_token e s w =
     (case origin s ''Origin'' of
        None \<Rightarrow> (Inl KeyError, s, w)
      | Some orig \<Rightarrow>
          (case async_request e (orig @ ''/token'') Map.empty s w of
             (Inl err, s1, w1) \<Rightarrow> (Inl err, s1, w1)
           | (Inr j, s1, w1) \<Rightarrow> (getitem j ''t'', s1, w1)))"

section \<open>Concrete surroundings for the examples\<close>

text \<open>
  A server that answers every GET with the body \<open>body\<close>, one whose every GET fails,
  and a random source that always draws the same ten letters; the world before any
  request.
\<close>

definition constant_env :: "json \<Rightarrow> env" where
  "constant_env body =
     \<lparr>choices = (\<lambda>n. ''abcdefghij''), serve = (\<lambda>hist req. Answers (Response (Some body)))\<rparr>"

definition world0 :: world where
  "world0 = \<lparr>acts = [], drawn = 0\<rparr>"

text \<open>
  An object of a subclass as a successful handshake leaves it, and an object of the
  class itself in the same state: the latter cannot come out of \<^verbatim>\<open>__init__\<close>; made with
  \<^verbatim>\<open>SpotifyLocal.__new__(SpotifyLocal)\<close> and its slots assigned one by one, it has
  everything but \<^verbatim>\<open>_session\<close>.
\<close>

definition connected_session :: session where
  "connected_session =
     initial_session\<lparr>oauth_token := Some (JStr ''o''), csrf_token := Some (JStr ''c''),
                      connected := True\<rparr>"


definition failing_env :: env where
  "failing_env = \<lparr>choices = (\<lambda>n. ''abcdefghij''), serve = (\<lambda>hist req. Fails)\<rparr>"

text \<open>
  A poller as \<^verbatim>\<open>listen_for_events(wait=1)\<close> builds it on a connected session with one
  registered callback, the payload \<^verbatim>\<open>{"playing": true}\<close>, and three kinds of turn: the
  server answers with that payload (with the given calls of the setter arriving
  meanwhile), the GET fails, the body is not JSON.
\<close>

definition example_poller :: poller where
  "example_poller =
     UpdateStatus (event_iadd Event ''log'') [''oauth'' \<mapsto> JStr ''o'', ''csrf'' \<mapsto> JStr ''c'']
       DEFAULT_ORIGIN ''http://abcdefghij.spotilocal.com:4381/remote/status.json'' 1"

definition playing :: json where
  "playing = JDict [(''playing'', JBool True)]"

definition event_turn :: "bool list \<Rightarrow> bool list \<Rightarrow> turn" where
  "event_turn ws1 ws2 =
     \<lparr>answer = Answers (Response (Some playing)), set_in_flight = ws1, set_in_dispatch = ws2\<rparr>"

definition failed_turn :: turn where
  "failed_turn = \<lparr>answer = Fails, set_in_flight = [], set_in_dispatch = []\<rparr>"

definition garbled_turn :: turn where
  "garbled_turn = \<lparr>answer = Answers (Response None), set_in_flight = [], set_in_dispatch = []\<rparr>"

section \<open>Predicates of the statements\<close>

text \<open>Both token attributes have been assigned.\<close>

definition tokens_populated :: "session \<Rightarrow> bool" where
  "tokens_populated s = (oauth_token s \<noteq> None \<and> csrf_token s \<noteq> None)"

section \<open>Basic facts\<close>

lemma event_call_map: "event_call fs j hist = hist @ map (\<lambda>f. Called f j) fs"
  by (induction fs arbitrary: hist) simp_all


lemma foldl_set_should_run:
  "foldl set_should_run p ws = p\<lparr>should_run := last (should_run p # ws)\<rparr>"
  by (induction ws arbitrary: p) (simp_all add: set_should_run_def)

lemma json_of_not_NotConnected: "json_of r \<noteq> Inl NotConnected"
  by (cases r rule: json_of.cases) simp_all

section \<open>What the constructor and the transport do\<close>


lemma init_of_subclass: "init OfSubclass = Inr initial_session"
  by (simp add: init_def)

lemma request_without_session:
  "http_session s = None \<Longrightarrow> request e u ps s w = (Inl AttributeError, s, w)"
  by (simp add: request_def attr_def)

lemma request_with_session:
  "http_session s = Some () \<Longrightarrow>
   request e u ps s w =
     (case serve e (acts w) \<lparr>req_url = u, req_params = ps, req_headers = origin s\<rparr> of
        Fails \<Rightarrow> Inl TransportError
      | Answers r \<Rightarrow> Inr r,
      s, w\<lparr>acts := acts w @ [Sent \<lparr>req_url = u, req_params = ps, req_headers = origin s\<rparr>]\<rparr>)"
  by (simp add: request_def attr_def session_get_def)

lemma request_not_NotConnected: "fst (request e u ps s w) \<noteq> Inl NotConnected"
  by (cases "http_session s")
     (simp_all add: request_without_session request_with_session split: reply.splits)

lemma request_session: "fst (snd (request e u ps s w)) = s"
  by (cases "http_session s") (simp_all add: request_without_session request_with_session)

lemma request_result:
  "request e u ps s w = (r, s1, w1) \<Longrightarrow> r \<noteq> Inl NotConnected \<and> s1 = s"
  using request_not_NotConnected [of e u ps s w] request_session [of e u ps s w] by simp

lemma not_connected_raises:
  "\<not> connected s \<Longrightarrow> check_if_connected s = Inl NotConnected"
  by (simp add: check_if_connected_def)

lemma connected_passes:
  "connected s \<Longrightarrow> check_if_connected s = Inr ()"
  by (simp add: check_if_connected_def)

lemma token_params_not_NotConnected: "token_params s \<noteq> Inl NotConnected"
  by (simp add: token_params_def attr_def split: option.splits)

lemma token_params_set:
  "oauth_token s = Some t \<Longrightarrow> csrf_token s = Some c \<Longrightarrow>
   token_params s = Inr [''oauth'' \<mapsto> t, ''csrf'' \<mapsto> c]"
  by (simp add: token_params_def attr_def)

section \<open>Reading the version\<close>





section \<open>The connection check of the control calls\<close>

text \<open>
  C1. Each control call that needs a connection (\<^verbatim>\<open>get_current_status\<close>, \<^verbatim>\<open>pause\<close>,
  \<^verbatim>\<open>unpause\<close>, \<^verbatim>\<open>playURI\<close>, \<^verbatim>\<open>listen_for_events\<close>), called on a session whose
  \<open>connected\<close> flag is false, raises the not-connected error with the session and the
  world untouched: no url was drawn and no GET was issued. Called on a session whose
  flag is true, it does not raise that error.
\<close>

theorem control_calls_require_connection:
  "(\<not> connected s \<longrightarrow>
      get_current_status e s w = (Inl NotConnected, s, w) \<and>
      pause e flag s w = (Inl NotConnected, s, w) \<and>
      unpause e s w = (Inl NotConnected, s, w) \<and>
      playURI e uri s w = (Inl NotConnected, s, w) \<and>
      listen_for_events e wt s w = (Inl NotConnected, s, w)) \<and>
   (connected s \<longrightarrow>
      fst (get_current_status e s w) \<noteq> Inl NotConnected \<and>
      fst (pause e flag s w) \<noteq> Inl NotConnected \<and>
      fst (unpause e s w) \<noteq> Inl NotConnected \<and>
      fst (playURI e uri s w) \<noteq> Inl NotConnected \<and>
      fst (listen_for_events e wt s w) \<noteq> Inl NotConnected)"
proof (intro conjI impI)
  assume c: "connected s"
  show "fst (get_current_status e s w) \<noteq> Inl NotConnected"
    using c token_params_not_NotConnected [of s]
    by (auto simp: get_current_status_def connected_passes
        json_of_not_NotConnected split: sum.splits prod.splits dest!: request_result)
  show p: "fst (pause e flag s w) \<noteq> Inl NotConnected" for flag
    using c token_params_not_NotConnected [of s]
    by (auto simp: pause_def connected_passes split: sum.splits prod.splits
        dest!: request_result)
  show "fst (unpause e s w) \<noteq> Inl NotConnected"
    using p [of False] by (simp add: unpause_def)
  show "fst (playURI e uri s w) \<noteq> Inl NotConnected"
    using c token_params_not_NotConnected [of s]
    by (auto simp: playURI_def connected_passes
        json_of_not_NotConnected split: sum.splits prod.splits dest!: request_result)
  show "fst (listen_for_events e wt s w) \<noteq> Inl NotConnected"
    using c token_params_not_NotConnected [of s]
    by (auto simp: listen_for_events_def connected_passes get_url_def
        Let_def split: sum.splits prod.splits)
qed (simp_all add: get_current_status_def pause_def unpause_def playURI_def
      listen_for_events_def not_connected_raises)

theorem control_calls_require_connection_witness:
  "get_current_status (constant_env JNull) initial_session world0
     = (Inl NotConnected, initial_session, world0) \<and>
   pause (constant_env JNull) True initial_session world0
     = (Inl NotConnected, initial_session, world0) \<and>
   unpause (constant_env JNull) initial_session world0
     = (Inl NotConnected, initial_session, world0) \<and>
   playURI (constant_env JNull) ''spotify:track:5Yn8WCB4Dqm8snemB5Mu4K'' initial_session world0
     = (Inl NotConnected, initial_session, world0) \<and>
   listen_for_events (constant_env JNull) 60 initial_session world0
     = (Inl NotConnected, initial_session, world0) \<and>
   fst (get_current_status (constant_env JNull) connected_session world0) \<noteq> Inl NotConnected \<and>
   fst (pause (constant_env JNull) True connected_session world0) \<noteq> Inl NotConnected \<and>
   fst (unpause (constant_env JNull) connected_session world0) \<noteq> Inl NotConnected \<and>
   fst (playURI (constant_env JNull) ''spotify:track:5Yn8WCB4Dqm8snemB5Mu4K'' connected_session world0)
     \<noteq> Inl NotConnected \<and>
   fst (listen_for_events (constant_env JNull) 60 connected_session world0) \<noteq> Inl NotConnected"
proof -
  have a: "\<not> connected initial_session" by (simp add: initial_session_def)
  have b: "connected connected_session" by (simp add: connected_session_def)
  show ?thesis
    using control_calls_require_connection
            [of initial_session "constant_env JNull" world0 True
                "''spotify:track:5Yn8WCB4Dqm8snemB5Mu4K''" 60]
          control_calls_require_connection
            [of connected_session "constant_env JNull" world0 True
                "''spotify:track:5Yn8WCB4Dqm8snemB5Mu4K''" 60]
          a b
    by blast
qed

section \<open>Pausing and unpausing\<close>

lemma pause_with_session:
  "http_session s = Some () \<Longrightarrow> connected s \<Longrightarrow>
   oauth_token s = Some t \<Longrightarrow> csrf_token s = Some c \<Longrightarrow>
   acts (snd (snd (pause e flag s w))) =
     acts w @ [Sent \<lparr>req_url = fst (get_url e ''/remote/pause.json'' w),
                      req_params = [''oauth'' \<mapsto> t, ''csrf'' \<mapsto> c,
                                    ''pause'' \<mapsto> JStr (if flag then ''true'' else ''false'')],
                      req_headers = origin s\<rparr>]"
  by (simp add: pause_def connected_passes token_params_set get_url_def request_with_session
      setitem_def Let_def split: reply.splits)



section \<open>Control calls leave the session as it was\<close>

lemma playURI_with_session:
  "http_session s = Some () \<Longrightarrow> connected s \<Longrightarrow>
   oauth_token s = Some t \<Longrightarrow> csrf_token s = Some c \<Longrightarrow>
   acts (snd (snd (playURI e uri s w))) =
     acts w @ [Sent \<lparr>req_url = fst (get_url e ''/remote/play.json'' w),
                      req_params = [''oauth'' \<mapsto> t, ''csrf'' \<mapsto> c,
                                    ''uri'' \<mapsto> JStr uri, ''context'' \<mapsto> JStr uri],
                      req_headers = origin s\<rparr>]"
  by (simp add: playURI_def connected_passes token_params_set get_url_def request_with_session
      setitem_def Let_def split: reply.splits)




section \<open>The handshake\<close>

lemma json_of_Inr: "json_of r = Inr j \<Longrightarrow> r = Response (Some j)"
  by (cases r rule: json_of.cases) simp_all

lemma get_oauth_token_success:
  assumes "get_oauth_token e s w = (Inr t, s1, w1)"
  shows "\<exists>orig j. origin s ''Origin'' = Some orig \<and> http_session s = Some () \<and>
           serve e (acts w) \<lparr>req_url = orig @ ''/token'', req_params = Map.empty,
                                req_headers = Map.empty\<rparr> = Answers (Response (Some j)) \<and>
           getitem j ''t'' = Inr t \<and> s1 = s \<and>
           w1 = w\<lparr>acts := acts w @ [Sent \<lparr>req_url = orig @ ''/token'', req_params = Map.empty,
                                              req_headers = Map.empty\<rparr>]\<rparr>"
  using assms
  by (auto simp: get_oauth_token_def session_get_def attr_def
      split: option.splits reply.splits sum.splits dest!: json_of_Inr)

lemma get_csrf_token_success:
  assumes "get_csrf_token e s w = (Inr c, s1, w1)"
  shows "\<exists>j. serve e (acts w) \<lparr>req_url = fst (get_url e ''/simplecsrf/token.json'' w),
                                   req_params = Map.empty, req_headers = origin s\<rparr>
                = Answers (Response (Some j)) \<and>
           getitem j ''token'' = Inr c \<and> s1 = s \<and>
           w1 = w\<lparr>acts := acts w @ [Sent \<lparr>req_url = fst (get_url e ''/simplecsrf/token.json'' w),
                                              req_params = Map.empty, req_headers = origin s\<rparr>],
                    drawn := Suc (drawn w)\<rparr>"
  using assms
  by (auto simp: get_csrf_token_def request_def session_get_def get_url_def attr_def Let_def
      split: option.splits reply.splits sum.splits dest!: json_of_Inr)

lemma get_oauth_token_keeps: "get_oauth_token e s w = (r, s1, w1) \<Longrightarrow> s1 = s"
  by (auto simp: get_oauth_token_def session_get_def attr_def
      split: option.splits reply.splits sum.splits)

lemma get_csrf_token_keeps: "get_csrf_token e s w = (r, s1, w1) \<Longrightarrow> s1 = s"
  by (auto simp: get_csrf_token_def get_url_def Let_def
      split: sum.splits prod.splits dest!: request_result)

lemma connect_success:
  assumes "connect e s w = (Inr (), s', w')"
  shows "\<exists>orig req1 req2 j1 j2 t c.
           origin s ''Origin'' = Some orig \<and>
           req_url req1 = orig @ ''/token'' \<and>
           req_url req2 = fst (get_url e ''/simplecsrf/token.json'' w) \<and>
           acts w' = acts w @ [Sent req1, Sent req2] \<and>
           serve e (acts w) req1 = Answers (Response (Some j1)) \<and> getitem j1 ''t'' = Inr t \<and>
           serve e (acts w @ [Sent req1]) req2 = Answers (Response (Some j2)) \<and>
           getitem j2 ''token'' = Inr c \<and>
           s' = s\<lparr>oauth_token := Some t, csrf_token := Some c, connected := True\<rparr>"
proof -
  from assms obtain t s1 w1 where o: "get_oauth_token e s w = (Inr t, s1, w1)"
    by (auto simp: connect_def split: prod.splits sum.splits)
  with assms obtain c s2 w2 where
    c: "get_csrf_token e (s1\<lparr>oauth_token := Some t\<rparr>) w1 = (Inr c, s2, w2)"
    and r: "s' = s2\<lparr>csrf_token := Some c, connected := True\<rparr>" "w' = w2"
    by (auto simp: connect_def split: prod.splits sum.splits)
  from get_oauth_token_success [OF o] obtain orig j1 where
    1: "origin s ''Origin'' = Some orig"
       "serve e (acts w) \<lparr>req_url = orig @ ''/token'', req_params = Map.empty,
                            req_headers = Map.empty\<rparr> = Answers (Response (Some j1))"
       "getitem j1 ''t'' = Inr t" "s1 = s"
       "w1 = w\<lparr>acts := acts w @ [Sent \<lparr>req_url = orig @ ''/token'', req_params = Map.empty,
                                          req_headers = Map.empty\<rparr>]\<rparr>"
    by blast
  from get_csrf_token_success [OF c] obtain j2 where
    2: "serve e (acts w1) \<lparr>req_url = fst (get_url e ''/simplecsrf/token.json'' w1),
                             req_params = Map.empty,
                             req_headers = origin (s1\<lparr>oauth_token := Some t\<rparr>)\<rparr>
          = Answers (Response (Some j2))"
       "getitem j2 ''token'' = Inr c"
       "s2 = s1\<lparr>oauth_token := Some t\<rparr>"
       "w2 = w1\<lparr>acts := acts w1 @ [Sent \<lparr>req_url = fst (get_url e ''/simplecsrf/token.json'' w1),
                                            req_params = Map.empty,
                                            req_headers = origin (s1\<lparr>oauth_token := Some t\<rparr>)\<rparr>],
                   drawn := Suc (drawn w1)\<rparr>"
    by blast
  have u: "fst (get_url e ''/simplecsrf/token.json'' w1) = fst (get_url e ''/simplecsrf/token.json'' w)"
    using 1(5) by (simp add: get_url_def Let_def)
  let ?req1 = "\<lparr>req_url = orig @ ''/token'', req_params = Map.empty, req_headers = Map.empty\<rparr>"
  let ?req2 = "\<lparr>req_url = fst (get_url e ''/simplecsrf/token.json'' w), req_params = Map.empty,
                req_headers = origin s\<rparr>"
  have "origin s ''Origin'' = Some orig \<and>
           req_url ?req1 = orig @ ''/token'' \<and>
           req_url ?req2 = fst (get_url e ''/simplecsrf/token.json'' w) \<and>
           acts w' = acts w @ [Sent ?req1, Sent ?req2] \<and>
           serve e (acts w) ?req1 = Answers (Response (Some j1)) \<and> getitem j1 ''t'' = Inr t \<and>
           serve e (acts w @ [Sent ?req1]) ?req2 = Answers (Response (Some j2)) \<and>
           getitem j2 ''token'' = Inr c \<and>
           s' = s\<lparr>oauth_token := Some t, csrf_token := Some c, connected := True\<rparr>"
    using 1 2 r u by simp
  then show ?thesis by blast
qed

lemma connect_session_cases:
  "fst (snd (connect e s w)) = s \<or>
   (\<exists>t. fst (snd (connect e s w)) = s\<lparr>oauth_token := Some t\<rparr> \<and> (\<exists>err. fst (connect e s w) = Inl err)) \<or>
   (\<exists>t c. fst (snd (connect e s w)) = s\<lparr>oauth_token := Some t, csrf_token := Some c, connected := True\<rparr>
          \<and> fst (connect e s w) = Inr ())"
proof (cases "get_oauth_token e s w")
  case (fields r s1 w1)
  then have s1: "s1 = s" by (rule get_oauth_token_keeps)
  show ?thesis
  proof (cases r)
    case (Inl err)
    with fields s1 show ?thesis by (simp add: connect_def)
  next
    case (Inr t)
    show ?thesis
    proof (cases "get_csrf_token e (s\<lparr>oauth_token := Some t\<rparr>) w1")
      case inner: (fields r2 s2 w2)
      then have s2: "s2 = s\<lparr>oauth_token := Some t\<rparr>" by (rule get_csrf_token_keeps)
      show ?thesis
        using fields s1 Inr inner s2 by (cases r2) (simp_all add: connect_def, blast+)
    qed
  qed
qed

lemma connect_failure:
  "fst (connect e s w) = Inl err \<Longrightarrow> connected (fst (snd (connect e s w))) = connected s"
  using connect_session_cases [of e s w] by auto

lemma connect_invariant:
  assumes "connected s \<longrightarrow> tokens_populated s"
  shows "connected (fst (snd (connect e s w))) \<longrightarrow> tokens_populated (fst (snd (connect e s w)))"
  using assms connect_session_cases [of e s w]
  by (auto simp: tokens_populated_def)

text \<open>
  C4 as stated fails: \<^verbatim>\<open>connect\<close> stores whatever the two bodies hold under \<^verbatim>\<open>"t"\<close> and
  \<^verbatim>\<open>"token"\<close> and checks neither. Run on the object that \<^verbatim>\<open>__init__\<close> leaves (an object of
  a subclass, which has the attribute \<^verbatim>\<open>_session\<close>), against a server that answers every
  GET with \<^verbatim>\<open>{"t": "", "token": ""}\<close> it succeeds, sets \<open>connected\<close>, and both tokens are
  the empty string; against one that answers \<^verbatim>\<open>{"t": 5, "token": null}\<close> it succeeds, sets
  \<open>connected\<close>, and the tokens are the number 5 and \<^verbatim>\<open>None\<close>, no strings at all.
\<close>

theorem connect_accepts_any_token_values:
  "init OfSubclass = Inr initial_session \<and>
   fst (connect (constant_env (JDict [(''t'', JStr ''''), (''token'', JStr '''')]))
          initial_session world0) = Inr () \<and>
   connected (fst (snd (connect (constant_env (JDict [(''t'', JStr ''''), (''token'', JStr '''')]))
                          initial_session world0))) \<and>
   oauth_token (fst (snd (connect (constant_env (JDict [(''t'', JStr ''''), (''token'', JStr '''')]))
                            initial_session world0))) = Some (JStr '''') \<and>
   csrf_token (fst (snd (connect (constant_env (JDict [(''t'', JStr ''''), (''token'', JStr '''')]))
                           initial_session world0))) = Some (JStr '''') \<and>
   fst (connect (constant_env (JDict [(''t'', JNum 5), (''token'', JNull)]))
          initial_session world0) = Inr () \<and>
   connected (fst (snd (connect (constant_env (JDict [(''t'', JNum 5), (''token'', JNull)]))
                          initial_session world0))) \<and>
   oauth_token (fst (snd (connect (constant_env (JDict [(''t'', JNum 5), (''token'', JNull)]))
                            initial_session world0))) = Some (JNum 5) \<and>
   csrf_token (fst (snd (connect (constant_env (JDict [(''t'', JNum 5), (''token'', JNull)]))
                           initial_session world0))) = Some JNull"
  by (simp add: init_of_subclass connect_def get_oauth_token_def get_csrf_token_def request_def
      session_get_def attr_def get_url_def constant_env_def initial_session_def world0_def
      DEFAULT_ORIGIN_def Let_def)

text \<open>
  C4, amended. Whenever \<^verbatim>\<open>connect\<close> succeeds it has issued exactly two GETs, first to the
  origin's \<^verbatim>\<open>/token\<close> and then to the drawn host's \<^verbatim>\<open>/simplecsrf/token.json\<close>; both were
  answered with a JSON body, and the session it leaves is the one it started from with
  \<open>oauth_token\<close> the value under \<^verbatim>\<open>"t"\<close> of the first body, \<open>csrf_token\<close> the value under
  \<^verbatim>\<open>"token"\<close> of the second (whatever these values are) and \<open>connected\<close> true. When it
  raises, \<open>connected\<close> is as it was. So \<^verbatim>\<open>connect\<close> keeps the invariant that \<open>connected\<close>
  implies that both tokens have been assigned, and an object that comes out of
  \<^verbatim>\<open>__init__\<close> is not connected.
\<close>

theorem connect_handshake:
  "(connect e s w = (Inr (), s', w') \<longrightarrow>
      (\<exists>orig req1 req2 j1 j2 t c.
         origin s ''Origin'' = Some orig \<and>
         req_url req1 = orig @ ''/token'' \<and>
         req_url req2 = fst (get_url e ''/simplecsrf/token.json'' w) \<and>
         acts w' = acts w @ [Sent req1, Sent req2] \<and>
         serve e (acts w) req1 = Answers (Response (Some j1)) \<and> getitem j1 ''t'' = Inr t \<and>
         serve e (acts w @ [Sent req1]) req2 = Answers (Response (Some j2)) \<and>
         getitem j2 ''token'' = Inr c \<and>
         s' = s\<lparr>oauth_token := Some t, csrf_token := Some c, connected := True\<rparr>)) \<and>
   (fst (connect e s w) = Inl err \<longrightarrow>
      connected (fst (snd (connect e s w))) = connected s) \<and>
   ((connected s \<longrightarrow> tokens_populated s) \<longrightarrow>
      (connected (fst (snd (connect e s w))) \<longrightarrow> tokens_populated (fst (snd (connect e s w))))) \<and>
   (init k = Inr s0 \<longrightarrow> \<not> connected s0)"
proof (intro conjI impI)
  assume "connect e s w = (Inr (), s', w')"
  then show "\<exists>orig req1 req2 j1 j2 t c.
         origin s ''Origin'' = Some orig \<and>
         req_url req1 = orig @ ''/token'' \<and>
         req_url req2 = fst (get_url e ''/simplecsrf/token.json'' w) \<and>
         acts w' = acts w @ [Sent req1, Sent req2] \<and>
         serve e (acts w) req1 = Answers (Response (Some j1)) \<and> getitem j1 ''t'' = Inr t \<and>
         serve e (acts w @ [Sent req1]) req2 = Answers (Response (Some j2)) \<and>
         getitem j2 ''token'' = Inr c \<and>
         s' = s\<lparr>oauth_token := Some t, csrf_token := Some c, connected := True\<rparr>"
    by (rule connect_success)
next
  assume "fst (connect e s w) = Inl err"
  then show "connected (fst (snd (connect e s w))) = connected s"
    by (rule connect_failure)
next
  assume "connected s \<longrightarrow> tokens_populated s" and "connected (fst (snd (connect e s w)))"
  then show "tokens_populated (fst (snd (connect e s w)))"
    using connect_invariant [of s e w] by blast
next
  assume "init k = Inr s0"
  then show "\<not> connected s0"
    by (cases k) (auto simp: init_def initial_session_def)
qed

theorem connect_handshake_witness:
  "(\<exists>orig req1 req2 j1 j2 t c.
      origin initial_session ''Origin'' = Some orig \<and>
      req_url req1 = orig @ ''/token'' \<and>
      req_url req2 =
        fst (get_url (constant_env (JDict [(''t'', JStr ''a''), (''token'', JStr ''b'')]))
               ''/simplecsrf/token.json'' world0) \<and>
      acts (snd (snd (connect (constant_env (JDict [(''t'', JStr ''a''), (''token'', JStr ''b'')]))
                        initial_session world0)))
        = acts world0 @ [Sent req1, Sent req2] \<and>
      serve (constant_env (JDict [(''t'', JStr ''a''), (''token'', JStr ''b'')])) (acts world0) req1
        = Answers (Response (Some j1)) \<and>
      getitem j1 ''t'' = Inr t \<and>
      serve (constant_env (JDict [(''t'', JStr ''a''), (''token'', JStr ''b'')]))
        (acts world0 @ [Sent req1]) req2 = Answers (Response (Some j2)) \<and>
      getitem j2 ''token'' = Inr c \<and>
      fst (snd (connect (constant_env (JDict [(''t'', JStr ''a''), (''token'', JStr ''b'')]))
                  initial_session world0))
        = initial_session\<lparr>oauth_token := Some t, csrf_token := Some c, connected := True\<rparr>) \<and>
   connected (fst (snd (connect failing_env initial_session world0))) = connected initial_session \<and>
   tokens_populated
     (fst (snd (connect (constant_env (JDict [(''t'', JStr ''a''), (''token'', JStr ''b'')]))
                  initial_session world0))) \<and>
   \<not> connected initial_session"
proof -
  let ?e = "constant_env (JDict [(''t'', JStr ''a''), (''token'', JStr ''b'')])"
  have r: "fst (connect ?e initial_session world0) = Inr ()"
    and c: "connected (fst (snd (connect ?e initial_session world0)))"
    by (simp_all add: connect_def get_oauth_token_def get_csrf_token_def request_def
        session_get_def attr_def get_url_def constant_env_def initial_session_def world0_def
        DEFAULT_ORIGIN_def Let_def)
  from r have ok: "connect ?e initial_session world0 =
      (Inr (), fst (snd (connect ?e initial_session world0)),
       snd (snd (connect ?e initial_session world0)))"
    by (metis prod.collapse)
  have f: "fst (connect failing_env initial_session world0) = Inl TransportError"
    by (simp add: connect_def get_oauth_token_def session_get_def attr_def failing_env_def
        initial_session_def world0_def DEFAULT_ORIGIN_def)
  have i: "connected initial_session \<longrightarrow> tokens_populated initial_session"
    by (simp add: initial_session_def)
  have k: "init OfSubclass = Inr initial_session" by (rule init_of_subclass)
  show ?thesis
    using connect_handshake
            [of ?e initial_session world0 "fst (snd (connect ?e initial_session world0))"
                "snd (snd (connect ?e initial_session world0))" TransportError
                OfSubclass initial_session]
          connect_handshake
            [of failing_env initial_session world0 initial_session world0 TransportError
                OfSubclass initial_session]
          ok c f i k
    by blast
qed

section \<open>The Origin header\<close>

text \<open>
  C6. The handshake of \<^verbatim>\<open>SpotifyLocal\<close>, run on the object that \<^verbatim>\<open>__init__\<close> leaves (an object
  of a subclass, which has the attribute \<^verbatim>\<open>_session\<close>) against a server that answers
  \<^verbatim>\<open>{"t": "a", "token": "b"}\<close>: the GET for the OAuth token goes out with no headers at
  all, since \<^verbatim>\<open>_get_oauth_token\<close> calls \<^verbatim>\<open>self._session.get(url=url)\<close> and not \<^verbatim>\<open>_request\<close>;
  the GET for the CSRF token carries \<^verbatim>\<open>Origin: https://open.spotify.com\<close>. The same
  OAuth request of \<^verbatim>\<open>SpotifyLocalAsync\<close>, on the object its \<^verbatim>\<open>__init__\<close> leaves, goes through
  \<^verbatim>\<open>_request\<close> and carries the header.
\<close>

theorem oauth_token_request_without_origin:
  "init OfSubclass = Inr initial_session \<and>
   acts (snd (snd (connect (constant_env (JDict [(''t'', JStr ''a''), (''token'', JStr ''b'')]))
                     initial_session world0)))
     = [Sent \<lparr>req_url = ''https://open.spotify.com/token'', req_params = Map.empty,
              req_headers = Map.empty\<rparr>,
        Sent \<lparr>req_url = ''http://abcdefghij.spotilocal.com:4381/simplecsrf/token.json'',
              req_params = Map.empty,
              req_headers = [''Origin'' \<mapsto> ''https://open.spotify.com'']\<rparr>] \<and>
   acts (snd (snd (async_get_oauth_token
                     (constant_env (JDict [(''t'', JStr ''a''), (''token'', JStr ''b'')]))
                     async_initial_session world0)))
     = [Sent \<lparr>req_url = ''https://open.spotify.com/token'', req_params = Map.empty,
              req_headers = [''Origin'' \<mapsto> ''https://open.spotify.com'']\<rparr>]"
  by (simp add: init_of_subclass connect_def get_oauth_token_def get_csrf_token_def request_def
      session_get_def attr_def async_get_oauth_token_def async_request_def get_url_def
      constant_env_def initial_session_def async_initial_session_def world0_def
      DEFAULT_ORIGIN_def DEFAULT_PORT_def str_def str_nat.simps Let_def)

section \<open>The loop of the poller\<close>

lemma run_stopped: "\<not> should_run p \<Longrightarrow> run script p hist = Some (Returned p hist)"
  by (simp add: run.simps)

lemma run_out_of_script: "should_run p \<Longrightarrow> run [] p hist = None"
  by (simp add: run.simps)

lemma run_pass:
  assumes "should_run p" and "answer t = Answers r" and "json_of r = Inr j"
  shows "run (t # rest) p hist =
           run rest
             (p\<lparr>params := (params p)(''returnon'' \<mapsto> JStr ''login,logout,play,pause,error,ap'',
                                      ''returnafter'' \<mapsto> JStr (str (wait p))),
                should_run := last (True # set_in_flight t @ set_in_dispatch t)\<rparr>)
             (event_call (handlers p) j
                (hist @ [Sent \<lparr>req_url = url p,
                               req_params = (params p)(''returnon'' \<mapsto> JStr ''login,logout,play,pause,error,ap'',
                                                       ''returnafter'' \<mapsto> JStr (str (wait p))),
                               req_headers = headers p\<rparr>]))"
  using assms
  by (simp add: run.simps [of "t # rest"] Let_def setitem_def foldl_set_should_run
      flip: foldl_append)

lemma run_crash:
  assumes "should_run p"
  shows "answer t = Fails \<Longrightarrow>
         run (t # rest) p hist =
           Some (Raised TransportError
             (p\<lparr>params := (params p)(''returnon'' \<mapsto> JStr ''login,logout,play,pause,error,ap'',
                                      ''returnafter'' \<mapsto> JStr (str (wait p))),
                should_run := last (True # set_in_flight t)\<rparr>)
             (hist @ [Sent \<lparr>req_url = url p,
                            req_params = (params p)(''returnon'' \<mapsto> JStr ''login,logout,play,pause,error,ap'',
                                                    ''returnafter'' \<mapsto> JStr (str (wait p))),
                            req_headers = headers p\<rparr>]))"
    and "answer t = Answers (Response None) \<Longrightarrow>
         run (t # rest) p hist =
           Some (Raised DecodeError
             (p\<lparr>params := (params p)(''returnon'' \<mapsto> JStr ''login,logout,play,pause,error,ap'',
                                      ''returnafter'' \<mapsto> JStr (str (wait p))),
                should_run := last (True # set_in_flight t)\<rparr>)
             (hist @ [Sent \<lparr>req_url = url p,
                            req_params = (params p)(''returnon'' \<mapsto> JStr ''login,logout,play,pause,error,ap'',
                                                    ''returnafter'' \<mapsto> JStr (str (wait p))),
                            req_headers = headers p\<rparr>]))"
  using assms
  by (simp_all add: run.simps [of "t # rest"] Let_def setitem_def foldl_set_should_run)

lemma run_returned_flag:
  "run script p hist = Some (Returned q a) \<Longrightarrow> \<not> should_run q"
proof (induction script arbitrary: p hist)
  case Nil
  then show ?case by (simp add: run.simps split: if_splits)
next
  case (Cons t rest)
  show ?case
  proof (cases "should_run p")
    case False
    with Cons.prems show ?thesis by (simp add: run.simps)
  next
    case True
    with Cons.prems Cons.IH show ?thesis
      by (simp add: run.simps [of "t # rest"] Let_def split: reply.splits sum.splits)
  qed
qed

lemma run_returns_at_once_iff:
  "(run script q h = Some (Returned q h)) = (\<not> should_run q)"
  using run_stopped [of q script h] run_returned_flag [of script q h q h] by blast



text \<open>
  C2. One pass of the loop, entered with the flag true and answered with a JSON body
  \<open>j\<close>: the parameter \<^verbatim>\<open>returnon\<close> is set to \<^verbatim>\<open>"login,logout,play,pause,error,ap"\<close> and
  \<^verbatim>\<open>returnafter\<close> to \<^verbatim>\<open>str(wait)\<close>; one GET goes to the poller's url with these parameters
  and the poller's headers; the handlers are called with \<open>j\<close>; and the loop goes on from
  its head with the rest of the script. At its head the loop returns at once exactly
  when the flag is false.
\<close>

theorem run_pass_in_order:
  "(should_run p \<and> answer t = Answers r \<and> json_of r = Inr j \<longrightarrow>
      run (t # rest) p hist =
        run rest
          (p\<lparr>params := (params p)(''returnon'' \<mapsto> JStr ''login,logout,play,pause,error,ap'',
                                   ''returnafter'' \<mapsto> JStr (str (wait p))),
             should_run := last (True # set_in_flight t @ set_in_dispatch t)\<rparr>)
          (event_call (handlers p) j
             (hist @ [Sent \<lparr>req_url = url p,
                            req_params = (params p)(''returnon'' \<mapsto> JStr ''login,logout,play,pause,error,ap'',
                                                    ''returnafter'' \<mapsto> JStr (str (wait p))),
                            req_headers = headers p\<rparr>]))) \<and>
   ((run script q h = Some (Returned q h)) = (\<not> should_run q))"
  using run_pass [of p t r j rest hist] run_returns_at_once_iff [of script q h] by blast

theorem run_pass_in_order_witness:
  "run [event_turn [] [False]] example_poller [] =
     Some (Returned
       (example_poller
          \<lparr>params := (params example_poller)
                        (''returnon'' \<mapsto> JStr ''login,logout,play,pause,error,ap'',
                         ''returnafter'' \<mapsto> JStr (str 1)),
           should_run := False\<rparr>)
       [Sent \<lparr>req_url = ''http://abcdefghij.spotilocal.com:4381/remote/status.json'',
              req_params = (params example_poller)
                             (''returnon'' \<mapsto> JStr ''login,logout,play,pause,error,ap'',
                              ''returnafter'' \<mapsto> JStr (str 1)),
              req_headers = DEFAULT_ORIGIN\<rparr>,
        Called ''log'' playing])"
proof -
  let ?t = "event_turn [] [False]"
  let ?p' = "example_poller
          \<lparr>params := (params example_poller)
                        (''returnon'' \<mapsto> JStr ''login,logout,play,pause,error,ap'',
                         ''returnafter'' \<mapsto> JStr (str (wait example_poller))),
           should_run := last (True # set_in_flight ?t @ set_in_dispatch ?t)\<rparr>"
  let ?h' = "event_call (handlers example_poller) playing
             ([] @ [Sent \<lparr>req_url = url example_poller,
                          req_params = (params example_poller)
                             (''returnon'' \<mapsto> JStr ''login,logout,play,pause,error,ap'',
                              ''returnafter'' \<mapsto> JStr (str (wait example_poller))),
                          req_headers = headers example_poller\<rparr>])"
  have a: "should_run example_poller \<and> answer ?t = Answers (Response (Some playing))
           \<and> json_of (Response (Some playing)) = Inr playing"
    by (simp add: example_poller_def UpdateStatus_def event_turn_def)
  have b: "\<not> should_run ?p'" by (simp add: event_turn_def)
  have "run [?t] example_poller [] = run [] ?p' ?h'"
    using run_pass_in_order [of example_poller ?t "Response (Some playing)" playing "[]" "[]"] a
    by blast
  also have "\<dots> = Some (Returned ?p' ?h')"
    using run_pass_in_order [of example_poller ?t "Response (Some playing)" playing "[]" "[]"
                                "[]" ?p' ?h'] b
    by blast
  finally show ?thesis
    by (simp add: example_poller_def UpdateStatus_def event_turn_def event_iadd_def Event_def)
qed

text \<open>
  C5. A pass entered with the flag true and answered with a JSON body \<open>j\<close>, during which
  the setter is called (while the GET is in flight or while the handlers run) and its
  last call writes false: the GET of this pass is still issued and every handler is
  still called with \<open>j\<close>; the loop then returns at its next check of the flag, with no
  further request, however the script would have gone on.
\<close>

theorem stop_seen_at_next_check:
  assumes "should_run p" and "answer t = Answers r" and "json_of r = Inr j"
    and "set_in_flight t @ set_in_dispatch t \<noteq> []"
    and "\<not> last (set_in_flight t @ set_in_dispatch t)"
  shows "run (t # rest) p hist =
           Some (Returned
             (p\<lparr>params := (params p)(''returnon'' \<mapsto> JStr ''login,logout,play,pause,error,ap'',
                                      ''returnafter'' \<mapsto> JStr (str (wait p))),
                should_run := False\<rparr>)
             (hist @
              [Sent \<lparr>req_url = url p,
                     req_params = (params p)(''returnon'' \<mapsto> JStr ''login,logout,play,pause,error,ap'',
                                             ''returnafter'' \<mapsto> JStr (str (wait p))),
                     req_headers = headers p\<rparr>] @
              map (\<lambda>f. Called f j) (handlers p)))"
proof -
  have l: "last (True # set_in_flight t @ set_in_dispatch t) = False"
    using assms(4,5) by simp
  have "run (t # rest) p hist =
          run rest
            (p\<lparr>params := (params p)(''returnon'' \<mapsto> JStr ''login,logout,play,pause,error,ap'',
                                     ''returnafter'' \<mapsto> JStr (str (wait p))),
               should_run := False\<rparr>)
            (event_call (handlers p) j
               (hist @ [Sent \<lparr>req_url = url p,
                              req_params = (params p)(''returnon'' \<mapsto> JStr ''login,logout,play,pause,error,ap'',
                                                      ''returnafter'' \<mapsto> JStr (str (wait p))),
                              req_headers = headers p\<rparr>]))"
    using run_pass [OF assms(1-3), of rest hist] by (simp only: l)
  then show ?thesis
    by (simp add: run_stopped event_call_map)
qed

theorem stop_seen_at_next_check_witness:
  "run [event_turn [False] [], event_turn [] []] example_poller [] =
     Some (Returned
       (example_poller
          \<lparr>params := (params example_poller)
                        (''returnon'' \<mapsto> JStr ''login,logout,play,pause,error,ap'',
                         ''returnafter'' \<mapsto> JStr (str (wait example_poller))),
           should_run := False\<rparr>)
       ([] @
        [Sent \<lparr>req_url = url example_poller,
               req_params = (params example_poller)
                              (''returnon'' \<mapsto> JStr ''login,logout,play,pause,error,ap'',
                               ''returnafter'' \<mapsto> JStr (str (wait example_poller))),
               req_headers = headers example_poller\<rparr>] @
        map (\<lambda>f. Called f playing) (handlers example_poller)))"
proof -
  let ?t = "event_turn [False] []"
  have a: "should_run example_poller" "answer ?t = Answers (Response (Some playing))"
    "json_of (Response (Some playing)) = Inr playing"
    "set_in_flight ?t @ set_in_dispatch ?t \<noteq> []"
    "\<not> last (set_in_flight ?t @ set_in_dispatch ?t)"
    by (simp_all add: example_poller_def UpdateStatus_def event_turn_def)
  show ?thesis
    by (rule stop_seen_at_next_check [OF a])
qed

text \<open>
  C7. A pass entered with the flag true whose GET fails, or whose body is not JSON: \<open>run\<close>
  ends there with that error. The history holds the one GET of this pass and no call of
  a handler; nothing of the rest of the script is attempted; and the flag is what it
  was on entry, true, unless a call of the setter arrived while the GET was in flight:
  the loop itself writes nothing to it.
\<close>

theorem run_error_ends_worker:
  "(should_run p \<and> answer t = Fails \<longrightarrow>
      run (t # rest) p hist =
        Some (Raised TransportError
          (p\<lparr>params := (params p)(''returnon'' \<mapsto> JStr ''login,logout,play,pause,error,ap'',
                                   ''returnafter'' \<mapsto> JStr (str (wait p))),
             should_run := last (True # set_in_flight t)\<rparr>)
          (hist @ [Sent \<lparr>req_url = url p,
                         req_params = (params p)(''returnon'' \<mapsto> JStr ''login,logout,play,pause,error,ap'',
                                                 ''returnafter'' \<mapsto> JStr (str (wait p))),
                         req_headers = headers p\<rparr>]))) \<and>
   (should_run p \<and> answer t = Answers (Response None) \<longrightarrow>
      run (t # rest) p hist =
        Some (Raised DecodeError
          (p\<lparr>params := (params p)(''returnon'' \<mapsto> JStr ''login,logout,play,pause,error,ap'',
                                   ''returnafter'' \<mapsto> JStr (str (wait p))),
             should_run := last (True # set_in_flight t)\<rparr>)
          (hist @ [Sent \<lparr>req_url = url p,
                         req_params = (params p)(''returnon'' \<mapsto> JStr ''login,logout,play,pause,error,ap'',
                                                 ''returnafter'' \<mapsto> JStr (str (wait p))),
                         req_headers = headers p\<rparr>])))"
  using run_crash [of p t rest hist] by blast

theorem run_error_ends_worker_witness:
  "run [failed_turn, event_turn [] []] example_poller [] =
     Some (Raised TransportError
       (example_poller
          \<lparr>params := (params example_poller)
                        (''returnon'' \<mapsto> JStr ''login,logout,play,pause,error,ap'',
                         ''returnafter'' \<mapsto> JStr (str (wait example_poller))),
           should_run := True\<rparr>)
       [Sent \<lparr>req_url = url example_poller,
              req_params = (params example_poller)
                             (''returnon'' \<mapsto> JStr ''login,logout,play,pause,error,ap'',
                              ''returnafter'' \<mapsto> JStr (str (wait example_poller))),
              req_headers = headers example_poller\<rparr>]) \<and>
   run [garbled_turn, event_turn [] []] example_poller [] =
     Some (Raised DecodeError
       (example_poller
          \<lparr>params := (params example_poller)
                        (''returnon'' \<mapsto> JStr ''login,logout,play,pause,error,ap'',
                         ''returnafter'' \<mapsto> JStr (str (wait example_poller))),
           should_run := True\<rparr>)
       [Sent \<lparr>req_url = url example_poller,
              req_params = (params example_poller)
                             (''returnon'' \<mapsto> JStr ''login,logout,play,pause,error,ap'',
                              ''returnafter'' \<mapsto> JStr (str (wait example_poller))),
              req_headers = headers example_poller\<rparr>])"
proof -
  have a: "should_run example_poller \<and> answer failed_turn = Fails"
    and b: "should_run example_poller \<and> answer garbled_turn = Answers (Response None)"
    by (simp_all add: example_poller_def UpdateStatus_def failed_turn_def garbled_turn_def)
  have l: "last (True # set_in_flight failed_turn) = True"
    "last (True # set_in_flight garbled_turn) = True" "[] @ xs = xs" for xs :: "action list"
    by (simp_all add: failed_turn_def garbled_turn_def)
  from a run_error_ends_worker [of example_poller failed_turn "[event_turn [] []]" "[]"]
  have 1: "run [failed_turn, event_turn [] []] example_poller [] =
        Some (Raised TransportError
          (example_poller\<lparr>params := (params example_poller)(''returnon'' \<mapsto> JStr ''login,logout,play,pause,error,ap'',
                                   ''returnafter'' \<mapsto> JStr (str (wait example_poller))),
             should_run := last (True # set_in_flight failed_turn)\<rparr>)
          ([] @ [Sent \<lparr>req_url = url example_poller,
                         req_params = (params example_poller)(''returnon'' \<mapsto> JStr ''login,logout,play,pause,error,ap'',
                                                 ''returnafter'' \<mapsto> JStr (str (wait example_poller))),
                         req_headers = headers example_poller\<rparr>]))"
    by blast
  from b run_error_ends_worker [of example_poller garbled_turn "[event_turn [] []]" "[]"]
  have 2: "run [garbled_turn, event_turn [] []] example_poller [] =
        Some (Raised DecodeError
          (example_poller\<lparr>params := (params example_poller)(''returnon'' \<mapsto> JStr ''login,logout,play,pause,error,ap'',
                                   ''returnafter'' \<mapsto> JStr (str (wait example_poller))),
             should_run := last (True # set_in_flight garbled_turn)\<rparr>)
          ([] @ [Sent \<lparr>req_url = url example_poller,
                         req_params = (params example_poller)(''returnon'' \<mapsto> JStr ''login,logout,play,pause,error,ap'',
                                                 ''returnafter'' \<mapsto> JStr (str (wait example_poller))),
                         req_headers = headers example_poller\<rparr>]))"
    by blast
  from 1 2 show ?thesis by (simp only: l)
qed

end
